theory Spec2Isabelle
  imports Main
begin

section \<open>The device wizard of gns3-gui\<close>

text \<open>
  This theory embeds \<^verbatim>\<open>gns3/device_wizard.py\<close> (class \<^verbatim>\<open>DeviceWizard\<close>) and
  \<^verbatim>\<open>gns3/modules/iou/dialogs/iou_device_wizard.py\<close> (class \<^verbatim>\<open>IOUDeviceWizard\<close>).

  The wizard is a Python object over Qt widgets. The model is a record of the wizard's
  attributes and of the state of every widget its methods read or write; each method
  is a function from that record to a result. A Python exception is a value of
  \<open>error\<close>, returned as \<open>Inl\<close>; a normal return is \<open>Inr\<close>.

  The widget toolkit is outside the repository. Its widgets are modelled by the
  attributes the wizard's code observes (items, current index, text, visibility,
  enabled flag, the canceled flag of a progress dialog and whether the dialog object
  still exists). A signal that the source connects to one of its slots is delivered:
  when an operation changes the current index of a connected combo box or the text
  of the connected line edit, the slot runs inside that operation, as it does in a
  direct connection. An exception that a slot raises ends the handler that caused
  the signal. An event of the user interface is an application of the slot's
  function, or of one of the functions \<open>cancel\<close> and \<open>closeWindow\<close> below.
\<close>

subsection \<open>Python values\<close>

datatype error = AttributeError | KeyError | TypeError | StopIteration | RuntimeError

text \<open>
  A JSON object whose values are strings: the image records of the server, the error
  payload and the configured devices are of this kind. The first binding of a key is
  the one a lookup finds.
\<close>

type_synonym pydict = "(string \<times> string) list"

text \<open>\<^verbatim>\<open>d[key]\<close> on a dict raises \<^verbatim>\<open>KeyError\<close> for a missing key.\<close>

definition getitem :: "pydict \<Rightarrow> string \<Rightarrow> error + string" where
  "getitem d k = (case map_of d k of None \<Rightarrow> Inl KeyError | Some v \<Rightarrow> Inr v)"

text \<open>
  \<^verbatim>\<open>item[key]\<close> where \<^verbatim>\<open>item\<close> may be \<^verbatim>\<open>None\<close>: subscripting \<^verbatim>\<open>None\<close> raises
  \<^verbatim>\<open>TypeError\<close>.
\<close>

definition subscript :: "pydict option \<Rightarrow> string \<Rightarrow> error + string" where
  "subscript item k = (case item of None \<Rightarrow> Inl TypeError | Some d \<Rightarrow> getitem d k)"

text \<open>Truth value of \<^verbatim>\<open>item\<close>: \<^verbatim>\<open>None\<close> and the empty dict are false.\<close>

definition truthy :: "pydict option \<Rightarrow> bool" where
  "truthy item = (case item of None \<Rightarrow> False | Some d \<Rightarrow> d \<noteq> [])"

text \<open>\<^verbatim>\<open>needle in text\<close> on strings: a case-sensitive search for a contiguous run.\<close>

primrec str_contains :: "string \<Rightarrow> string \<Rightarrow> bool" where
  "str_contains needle [] = (needle = [])"
| "str_contains needle (c # cs) =
     (take (length needle) (c # cs) = needle \<or> str_contains needle cs)"

text \<open>\<^verbatim>\<open>str(n)\<close> for an integer, used by \<^verbatim>\<open>"{}:{}".format(host, port)\<close>.\<close>

definition digit_char :: "nat \<Rightarrow> char" where
  "digit_char d = ''0123456789'' ! d"

function str_nat :: "nat \<Rightarrow> string" where
  "str_nat n = (if n < 10 then [digit_char n] else str_nat (n div 10) @ [digit_char (n mod 10)])"
  by pat_completeness auto
termination
  by (relation "measure id") auto

declare str_nat.simps [simp del]

definition str_int :: "int \<Rightarrow> string" where
  "str_int i = (if i < 0 then CHR ''-'' # str_nat (nat (- i)) else str_nat (nat i))"

text \<open>\<^verbatim>\<open>os.path.basename\<close> of \<^verbatim>\<open>posixpath\<close>: what follows the last slash.\<close>

definition basename :: "string \<Rightarrow> string" where
  "basename p = rev (takeWhile (\<lambda>c. c \<noteq> CHR ''/'') (rev p))"

subsection \<open>Widgets\<close>

text \<open>
  A combo box: its entries (display text and associated data), the current index
  (\<open>-1\<close> when there is none) and its flags.
\<close>

record 'a combo_box =
  items :: "(string \<times> 'a) list"
  currentIndex :: int
  cb_visible :: bool
  cb_enabled :: bool

definition count :: "'a combo_box \<Rightarrow> int" where
  "count cb = int (length (items cb))"

text \<open>
  \<^verbatim>\<open>itemData(index)\<close>: the data of the entry, and an invalid variant, which Python
  sees as \<^verbatim>\<open>None\<close>, when the index names no entry.
\<close>

definition itemData :: "'a combo_box \<Rightarrow> int \<Rightarrow> 'a option" where
  "itemData cb i =
     (if 0 \<le> i \<and> i < count cb then Some (snd (items cb ! nat i)) else None)"

definition currentText :: "'a combo_box \<Rightarrow> string" where
  "currentText cb =
     (if 0 \<le> currentIndex cb \<and> currentIndex cb < count cb
      then fst (items cb ! nat (currentIndex cb)) else [])"

definition clear :: "'a combo_box \<Rightarrow> 'a combo_box" where
  "clear cb = cb\<lparr>items := [], currentIndex := - 1\<rparr>"

text \<open>\<^verbatim>\<open>addItem(text, data)\<close> appends; the first entry of an empty box becomes current.\<close>

definition addItem :: "string \<Rightarrow> 'a \<Rightarrow> 'a combo_box \<Rightarrow> 'a combo_box" where
  "addItem t d cb =
     cb\<lparr>items := items cb @ [(t, d)],
        currentIndex := (if items cb = [] then 0 else currentIndex cb)\<rparr>"

record line_edit =
  le_text :: string
  le_visible :: bool

definition setText :: "string \<Rightarrow> line_edit \<Rightarrow> line_edit" where
  "setText t le = le\<lparr>le_text := t\<rparr>"

datatype dialog_state = Shown | Accepted | Rejected

text \<open>
  A progress dialog: the canceled flag, what became of the dialog, the attribute
  \<^verbatim>\<open>WA_DeleteOnClose\<close>, and whether the dialog object has been deleted. A method
  called on a deleted object raises \<^verbatim>\<open>RuntimeError\<close>.
\<close>

record progress_dialog =
  wasCanceled :: bool
  pd_state :: dialog_state
  deleteOnClose :: bool
  deleted :: bool

text \<open>
  \<^verbatim>\<open>accept()\<close> and \<^verbatim>\<open>reject()\<close> close the dialog with a result; a closed
  dialog with \<^verbatim>\<open>WA_DeleteOnClose\<close> is deleted.
\<close>

definition done_dialog :: "dialog_state \<Rightarrow> progress_dialog \<Rightarrow> progress_dialog" where
  "done_dialog r pd = pd\<lparr>pd_state := r, deleted := (deleted pd \<or> deleteOnClose pd)\<rparr>"

datatype icon = Critical | Warning

text \<open>A message box that was shown: icon, title and text.\<close>

type_synonym message_box = "icon \<times> string \<times> string"

subsection \<open>Servers and the wizard\<close>

record server =
  host :: string
  port :: int

text \<open>\<^verbatim>\<open>"{}:{}".format(server.host, server.port)\<close>\<close>

definition host_port :: "server \<Rightarrow> string" where
  "host_port srv = host srv @ '':'' @ str_int (port srv)"

text \<open>
  What the wizard reads from the rest of the application. The classes \<^verbatim>\<open>Servers\<close>
  and \<^verbatim>\<open>get_default_base_config\<close> are not part of the two modules, so what they
  return is a parameter: the dict of remote servers, the local server, the sequence
  that iterating \<^verbatim>\<open>Servers.instance()\<close> yields, and the base configuration read
  from a template (\<open>None\<close> when there is none).
\<close>

record env =
  remoteServers :: "(string \<times> server) list"
  localServer :: server
  servers_iter :: "server list"
  get_default_base_config :: "string \<Rightarrow> string option"

datatype page = uiServerWizardPage | uiNameImageWizardPage | OtherPage

datatype connection =
    ExistingImageToggled nat nat nat nat
  | ImageListIndexChanged nat nat
  | ImageBrowserClicked nat nat

text \<open>
  The wizard. Image combo boxes, line edits, browse buttons and progress dialogs are
  objects held by reference in the source; here each kind has a store indexed by an
  identifier, so that two references to one widget are one identifier. A browse
  button is its visibility. The Python sets of combo boxes and of browse buttons are
  lists without repetition; the order of a list stands for the iteration order of the
  set, which Python leaves open.
\<close>

record wizard =
  self_server :: "server option"
  self_images_combo_boxes :: "nat list"
  self_images_browser_buttons :: "nat list"
  self_image_list_progress_dialog :: "nat option"
  self_iou_devices :: "(string \<times> pydict) list"
  combo_boxes :: "nat \<Rightarrow> pydict combo_box"
  line_edits :: "nat \<Rightarrow> line_edit"
  buttons :: "nat \<Rightarrow> bool"
  progress_dialogs :: "nat \<Rightarrow> progress_dialog"
  next_dialog :: nat
  connections :: "connection list"
  uiLocalRadioButton :: bool
  uiRemoteRadioButton :: bool
  uiLoadBalanceCheckBox :: bool
  uiRemoteServersGroupBox :: bool
  uiRemoteServersComboBox :: "server combo_box"
  uiTypeComboBox :: int
  logoPixmap :: string
  currentPage :: page
  message_boxes :: "message_box list"
  requests :: "(server \<times> string) list"

text \<open>The two line edits of the IOU wizard, as identifiers in the store.\<close>

definition uiIOUImageLineEdit :: nat where
  "uiIOUImageLineEdit = 0"

definition uiNameLineEdit :: nat where
  "uiNameLineEdit = 1"

text \<open>
  The type combo box holds the two entries that \<^verbatim>\<open>__init__\<close> adds and nothing else
  changes, so its state is its current index.
\<close>

definition uiTypeComboBox_items :: "string list" where
  "uiTypeComboBox_items = [''L2 image'', ''L3 image'']"

definition uiTypeComboBox_currentText :: "wizard \<Rightarrow> string" where
  "uiTypeComboBox_currentText s =
     (if 0 \<le> uiTypeComboBox s \<and> uiTypeComboBox s < int (length uiTypeComboBox_items)
      then uiTypeComboBox_items ! nat (uiTypeComboBox s) else [])"

definition set_add :: "nat \<Rightarrow> nat list \<Rightarrow> nat list" where
  "set_add x xs = (if x \<in> set xs then xs else xs @ [x])"

definition critical :: "string \<Rightarrow> string \<Rightarrow> wizard \<Rightarrow> wizard" where
  "critical title msg s = s\<lparr>message_boxes := message_boxes s @ [(Critical, title, msg)]\<rparr>"

definition set_line_edit :: "nat \<Rightarrow> line_edit \<Rightarrow> wizard \<Rightarrow> wizard" where
  "set_line_edit l le s = s\<lparr>line_edits := (line_edits s)(l := le)\<rparr>"

definition set_combo_box :: "nat \<Rightarrow> pydict combo_box \<Rightarrow> wizard \<Rightarrow> wizard" where
  "set_combo_box c cb s = s\<lparr>combo_boxes := (combo_boxes s)(c := cb)\<rparr>"

definition set_button :: "nat \<Rightarrow> bool \<Rightarrow> wizard \<Rightarrow> wizard" where
  "set_button b v s = s\<lparr>buttons := (buttons s)(b := v)\<rparr>"

subsection \<open>Signals and the slots they run\<close>

text \<open>
  \<^verbatim>\<open>IOUDeviceWizard._typeChangedSlot(image_type)\<close>, connected in \<^verbatim>\<open>__init__\<close> to
  \<^verbatim>\<open>uiTypeComboBox.currentIndexChanged[str]\<close>.
\<close>

definition typeChangedSlot :: "string \<Rightarrow> wizard \<Rightarrow> wizard" where
  "typeChangedSlot image_type s =
     (if image_type = ''L2 image'' then s\<lparr>logoPixmap := '':/symbols/multilayer_switch.normal.svg''\<rparr>
      else s\<lparr>logoPixmap := '':/symbols/router.normal.svg''\<rparr>)"

text \<open>
  \<^verbatim>\<open>uiTypeComboBox.setCurrentIndex(index)\<close>: the signal is emitted, with the text of
  the new entry, when the index changes. The source calls it with 0 and 1.
\<close>

definition uiTypeComboBox_setCurrentIndex :: "int \<Rightarrow> wizard \<Rightarrow> wizard" where
  "uiTypeComboBox_setCurrentIndex index s =
     (if uiTypeComboBox s = index then s
      else (let s1 = s\<lparr>uiTypeComboBox := index\<rparr>
            in typeChangedSlot (uiTypeComboBox_currentText s1) s1))"

text \<open>
  \<^verbatim>\<open>IOUDeviceWizard._imageLineEditTextChangedSlot(text)\<close>, connected in
  \<^verbatim>\<open>__init__\<close> to \<^verbatim>\<open>uiIOUImageLineEdit.textChanged\<close>.
\<close>

definition imageLineEditTextChangedSlot :: "string \<Rightarrow> wizard \<Rightarrow> wizard" where
  "imageLineEditTextChangedSlot txt s =
     (if str_contains ''l2'' txt then uiTypeComboBox_setCurrentIndex 0 s
      else if str_contains ''l3'' txt then uiTypeComboBox_setCurrentIndex 1 s
      else s)"

text \<open>
  \<^verbatim>\<open>line_edit.setText(text)\<close>: \<^verbatim>\<open>textChanged\<close> is emitted when the text
  changes, and the image line edit of the IOU wizard has the slot above connected.
\<close>

definition lineEdit_setText :: "nat \<Rightarrow> string \<Rightarrow> wizard \<Rightarrow> wizard" where
  "lineEdit_setText line_edit t s =
     (if le_text (line_edits s line_edit) = t then s
      else (let s1 = set_line_edit line_edit (setText t (line_edits s line_edit)) s
            in if line_edit = uiIOUImageLineEdit then imageLineEditTextChangedSlot t s1 else s1))"

text \<open>
  \<^verbatim>\<open>DeviceWizard._imageListIndexChangedSlot(index, combo_box, line_edit)\<close>. Both
  branches of the source's conditional are the same statement.
\<close>

definition imageListIndexChangedSlot :: "int \<Rightarrow> nat \<Rightarrow> nat \<Rightarrow> wizard \<Rightarrow> error + wizard" where
  "imageListIndexChangedSlot index combo_box line_edit s =
     (let item = itemData (combo_boxes s combo_box) index in
      if truthy item then
        (case subscript item ''filename'' of
           Inl e \<Rightarrow> Inl e
         | Inr f \<Rightarrow> Inr (lineEdit_setText line_edit f s))
      else
        (case subscript item ''filename'' of
           Inl e \<Rightarrow> Inl e
         | Inr f \<Rightarrow> Inr (lineEdit_setText line_edit f s)))"

text \<open>
  \<^verbatim>\<open>currentIndexChanged(index)\<close> of an image combo box: the slots that
  \<^verbatim>\<open>addImageSelector\<close> connected to that box run in the order of connection, and
  the first exception ends the delivery.
\<close>

fun emit_currentIndexChanged :: "connection list \<Rightarrow> nat \<Rightarrow> int \<Rightarrow> wizard \<Rightarrow> error + wizard" where
  "emit_currentIndexChanged [] combo_box index s = Inr s"
| "emit_currentIndexChanged (ImageListIndexChanged c line_edit # rest) combo_box index s =
     (if c = combo_box then
        (case imageListIndexChangedSlot index combo_box line_edit s of
           Inl e \<Rightarrow> Inl e
         | Inr s1 \<Rightarrow> emit_currentIndexChanged rest combo_box index s1)
      else emit_currentIndexChanged rest combo_box index s)"
| "emit_currentIndexChanged (other # rest) combo_box index s =
     emit_currentIndexChanged rest combo_box index s"

text \<open>
  \<^verbatim>\<open>combo_box.clear()\<close> and \<^verbatim>\<open>combo_box.addItem(text, data)\<close> on an image combo
  box of the wizard: the entries change first, and the signal follows when the
  current index is no longer what it was.
\<close>

definition comboBox_clear :: "nat \<Rightarrow> wizard \<Rightarrow> error + wizard" where
  "comboBox_clear combo_box s =
     (let cb = clear (combo_boxes s combo_box);
          s1 = set_combo_box combo_box cb s
      in if currentIndex cb \<noteq> currentIndex (combo_boxes s combo_box)
         then emit_currentIndexChanged (connections s1) combo_box (currentIndex cb) s1
         else Inr s1)"

definition comboBox_addItem :: "nat \<Rightarrow> string \<Rightarrow> pydict \<Rightarrow> wizard \<Rightarrow> error + wizard" where
  "comboBox_addItem combo_box t d s =
     (let cb = addItem t d (combo_boxes s combo_box);
          s1 = set_combo_box combo_box cb s
      in if currentIndex cb \<noteq> currentIndex (combo_boxes s combo_box)
         then emit_currentIndexChanged (connections s1) combo_box (currentIndex cb) s1
         else Inr s1)"

subsection \<open>\<^verbatim>\<open>DeviceWizard\<close>: the slots\<close>

text \<open>\<^verbatim>\<open>_remoteServerToggledSlot(checked)\<close>\<close>

definition remoteServerToggledSlot :: "bool \<Rightarrow> wizard \<Rightarrow> wizard" where
  "remoteServerToggledSlot checked s =
     (if checked then
        fold (\<lambda>button. set_button button False) (self_images_browser_buttons s)
          (s\<lparr>uiRemoteServersGroupBox := True\<rparr>)
      else
        fold (\<lambda>button. set_button button True) (self_images_browser_buttons s)
          (s\<lparr>uiRemoteServersGroupBox := False\<rparr>))"

text \<open>\<^verbatim>\<open>_loadBalanceToggledSlot(checked)\<close>\<close>

definition loadBalanceToggledSlot :: "bool \<Rightarrow> wizard \<Rightarrow> wizard" where
  "loadBalanceToggledSlot checked s =
     (if checked then
        s\<lparr>uiRemoteServersComboBox := (uiRemoteServersComboBox s)\<lparr>cb_enabled := False\<rparr>\<rparr>
      else
        s\<lparr>uiRemoteServersComboBox := (uiRemoteServersComboBox s)\<lparr>cb_enabled := True\<rparr>\<rparr>)"

text \<open>\<^verbatim>\<open>_existingImageToggledSlot(checked, combo_box, line_edit, browser)\<close>\<close>

definition existingImageToggledSlot ::
  "bool \<Rightarrow> nat \<Rightarrow> nat \<Rightarrow> nat \<Rightarrow> wizard \<Rightarrow> error + wizard" where
  "existingImageToggledSlot checked combo_box line_edit browser s =
     (if checked then
        (let s1 = set_combo_box combo_box ((combo_boxes s combo_box)\<lparr>cb_visible := True\<rparr>) s;
             s2 = set_button browser False s1;
             s3 = set_line_edit line_edit ((line_edits s2 line_edit)\<lparr>le_visible := False\<rparr>) s2
         in if count (combo_boxes s3 combo_box) > 0 then
              (case subscript (itemData (combo_boxes s3 combo_box)
                                 (currentIndex (combo_boxes s3 combo_box))) ''filename'' of
                 Inl e \<Rightarrow> Inl e
               | Inr f \<Rightarrow> Inr (lineEdit_setText line_edit f s3))
            else Inr s3)
      else
        (let s1 = set_combo_box combo_box ((combo_boxes s combo_box)\<lparr>cb_visible := False\<rparr>) s;
             s2 = lineEdit_setText line_edit [] s1;
             s3 = set_line_edit line_edit ((line_edits s2 line_edit)\<lparr>le_visible := True\<rparr>) s2
         in Inr (set_button browser True s3)))"

text \<open>
  \<^verbatim>\<open>addImageSelector(radio_button, combo_box, line_edit, browser, image_selector)\<close>.
  The three \<^verbatim>\<open>connect\<close> calls are recorded; the radio button and the image selector
  are identifiers.
\<close>

definition addImageSelector ::
  "nat \<Rightarrow> nat \<Rightarrow> nat \<Rightarrow> nat \<Rightarrow> nat \<Rightarrow> wizard \<Rightarrow> error + wizard" where
  "addImageSelector radio_button combo_box line_edit browser image_selector s =
     (let s1 = s\<lparr>connections := connections s @
                   [ExistingImageToggled radio_button combo_box line_edit browser,
                    ImageListIndexChanged combo_box line_edit]\<rparr>;
          s2 = s1\<lparr>self_images_combo_boxes := set_add combo_box (self_images_combo_boxes s1)\<rparr>;
          s3 = s2\<lparr>connections := connections s2 @ [ImageBrowserClicked line_edit image_selector]\<rparr>;
          s4 = (if uiLocalRadioButton s3 then set_button browser False s3
                else set_button browser True s3);
          s5 = s4\<lparr>self_images_browser_buttons := set_add browser (self_images_browser_buttons s4)\<rparr>
      in existingImageToggledSlot True combo_box line_edit browser s5)"

subsection \<open>\<^verbatim>\<open>DeviceWizard\<close>: the image list\<close>

text \<open>
  The server's answer handed to the callback: a list of image records, or one JSON
  object (the error payload).
\<close>

datatype response = Records "pydict list" | Payload pydict

text \<open>
  The methods of a progress dialog that the wizard calls, on the dialog with
  identifier \<open>d\<close>. Each raises \<^verbatim>\<open>RuntimeError\<close> when the dialog has been deleted.
\<close>

definition dialog_reject :: "nat \<Rightarrow> wizard \<Rightarrow> error + wizard" where
  "dialog_reject d s =
     (if deleted (progress_dialogs s d) then Inl RuntimeError
      else Inr (s\<lparr>progress_dialogs :=
                   (progress_dialogs s)(d := done_dialog Rejected (progress_dialogs s d))\<rparr>))"

definition dialog_accept :: "nat \<Rightarrow> wizard \<Rightarrow> error + wizard" where
  "dialog_accept d s =
     (if deleted (progress_dialogs s d) then Inl RuntimeError
      else Inr (s\<lparr>progress_dialogs :=
                   (progress_dialogs s)(d := done_dialog Accepted (progress_dialogs s d))\<rparr>))"

definition dialog_wasCanceled :: "nat \<Rightarrow> wizard \<Rightarrow> error + bool" where
  "dialog_wasCanceled d s =
     (if deleted (progress_dialogs s d) then Inl RuntimeError
      else Inr (wasCanceled (progress_dialogs s d)))"

text \<open>
  The user presses Cancel on a progress dialog: the flag is set and the dialog is
  hidden, not closed.
\<close>

definition cancel :: "nat \<Rightarrow> wizard \<Rightarrow> wizard" where
  "cancel d s = s\<lparr>progress_dialogs := (progress_dialogs s)(d := (progress_dialogs s d)\<lparr>wasCanceled := True\<rparr>)\<rparr>"

text \<open>
  The user closes the window of a progress dialog: the close event cancels, and the
  dialog is closed as rejected.
\<close>

definition closeWindow :: "nat \<Rightarrow> wizard \<Rightarrow> wizard" where
  "closeWindow d s =
     s\<lparr>progress_dialogs :=
         (progress_dialogs s)(d := done_dialog Rejected ((progress_dialogs s d)\<lparr>wasCanceled := True\<rparr>))\<rparr>"

text \<open>
  \<^verbatim>\<open>loadImagesList(endpoint)\<close>. A pending progress dialog is rejected; a new one is
  created, given \<^verbatim>\<open>WA_DeleteOnClose\<close>, shown and stored; the request goes to
  \<^verbatim>\<open>self._server\<close>, whose \<^verbatim>\<open>get\<close> is recorded in \<open>requests\<close>. Calling \<^verbatim>\<open>get\<close>
  on \<^verbatim>\<open>None\<close> raises \<^verbatim>\<open>AttributeError\<close>.
\<close>

definition loadImagesList :: "string \<Rightarrow> wizard \<Rightarrow> error + wizard" where
  "loadImagesList endpoint s =
     (case (case self_image_list_progress_dialog s of
              None \<Rightarrow> Inr s
            | Some d \<Rightarrow> dialog_reject d s) of
        Inl e \<Rightarrow> Inl e
      | Inr s1 \<Rightarrow>
          (let d' = next_dialog s1;
               s2 = s1\<lparr>progress_dialogs :=
                         (progress_dialogs s1)
                           (d' := \<lparr>wasCanceled = False, pd_state = Shown,
                                   deleteOnClose = True, deleted = False\<rparr>),
                       next_dialog := Suc d',
                       self_image_list_progress_dialog := Some d'\<rparr>
           in case self_server s2 of
                None \<Rightarrow> Inl AttributeError
              | Some srv \<Rightarrow> Inr (s2\<lparr>requests := requests s2 @ [(srv, endpoint)]\<rparr>)))"

text \<open>\<^verbatim>\<open>result["message"]\<close>: a list cannot be subscripted by a string.\<close>

definition result_message :: "response \<Rightarrow> error + string" where
  "result_message result =
     (case result of Records rs \<Rightarrow> Inl TypeError | Payload d \<Rightarrow> getitem d ''message'')"

text \<open>The inner loop \<^verbatim>\<open>for vm in result: combo_box.addItem(vm["filename"], vm)\<close>.\<close>

fun addItems :: "nat \<Rightarrow> pydict list \<Rightarrow> wizard \<Rightarrow> error + wizard" where
  "addItems combo_box [] s = Inr s"
| "addItems combo_box (vm # vms) s =
     (case getitem vm ''filename'' of
        Inl e \<Rightarrow> Inl e
      | Inr f \<Rightarrow>
          (case comboBox_addItem combo_box f vm s of
             Inl e \<Rightarrow> Inl e
           | Inr s1 \<Rightarrow> addItems combo_box vms s1))"

text \<open>
  Iterating a JSON object yields its keys, which are strings, and subscripting a
  string by \<^verbatim>\<open>"filename"\<close> raises \<^verbatim>\<open>TypeError\<close>.
\<close>

definition add_result_items :: "nat \<Rightarrow> response \<Rightarrow> wizard \<Rightarrow> error + wizard" where
  "add_result_items combo_box result s =
     (case result of
        Records rs \<Rightarrow> addItems combo_box rs s
      | Payload d \<Rightarrow> (if d = [] then Inr s else Inl TypeError))"

text \<open>The outer loop \<^verbatim>\<open>for combo_box in self._images_combo_boxes\<close>.\<close>

fun fill_combo_boxes :: "nat list \<Rightarrow> response \<Rightarrow> wizard \<Rightarrow> error + wizard" where
  "fill_combo_boxes [] result s = Inr s"
| "fill_combo_boxes (combo_box # rest) result s =
     (case comboBox_clear combo_box s of
        Inl e \<Rightarrow> Inl e
      | Inr s1 \<Rightarrow>
          (case add_result_items combo_box result s1 of
             Inl e \<Rightarrow> Inl e
           | Inr s2 \<Rightarrow> fill_combo_boxes rest result s2))"

text \<open>
  \<^verbatim>\<open>_getImagesFromServerCallback(result, error=False, **kwargs)\<close>. The stored
  dialog is read and the attribute reset before anything else; \<^verbatim>\<open>wasCanceled\<close> on
  \<^verbatim>\<open>None\<close> raises \<^verbatim>\<open>AttributeError\<close>.
\<close>

definition getImagesFromServerCallback :: "response \<Rightarrow> bool \<Rightarrow> wizard \<Rightarrow> error + wizard" where
  "getImagesFromServerCallback result error_flag s =
     (let progress_dialog = self_image_list_progress_dialog s;
          s1 = s\<lparr>self_image_list_progress_dialog := None\<rparr>
      in case progress_dialog of
           None \<Rightarrow> Inl AttributeError
         | Some d \<Rightarrow>
             (case dialog_wasCanceled d s1 of
                Inl e \<Rightarrow> Inl e
              | Inr True \<Rightarrow> Inr s1
              | Inr False \<Rightarrow>
                  (case dialog_accept d s1 of
                     Inl e \<Rightarrow> Inl e
                   | Inr s2 \<Rightarrow>
                       if error_flag then
                         (case result_message result of
                            Inl e \<Rightarrow> Inl e
                          | Inr m \<Rightarrow>
                              Inr (critical ''Images'' (''Error while getting the VMs: '' @ m) s2))
                       else fill_combo_boxes (self_images_combo_boxes s2) result s2)))"

subsection \<open>\<^verbatim>\<open>DeviceWizard\<close>: the pages\<close>

text \<open>The loop of \<^verbatim>\<open>initializePage\<close> over \<^verbatim>\<open>remoteServers().values()\<close>.\<close>

definition fill_remote_servers :: "env \<Rightarrow> wizard \<Rightarrow> wizard" where
  "fill_remote_servers e s =
     s\<lparr>uiRemoteServersComboBox :=
         fold (\<lambda>srv. addItem (host_port srv) srv) (map snd (remoteServers e))
           (clear (uiRemoteServersComboBox s))\<rparr>"

text \<open>\<^verbatim>\<open>DeviceWizard.initializePage\<close>, given the page that \<^verbatim>\<open>page(page_id)\<close> returns.\<close>

definition DeviceWizard_initializePage :: "env \<Rightarrow> page \<Rightarrow> wizard \<Rightarrow> wizard" where
  "DeviceWizard_initializePage e pg s =
     (if pg = uiServerWizardPage then fill_remote_servers e s else s)"

text \<open>\<^verbatim>\<open>DeviceWizard.validateCurrentPage\<close>: the returned flag and the wizard after it.\<close>

definition DeviceWizard_validateCurrentPage :: "env \<Rightarrow> wizard \<Rightarrow> bool \<times> wizard" where
  "DeviceWizard_validateCurrentPage e s =
     (if currentPage s = uiServerWizardPage then
        (if uiRemoteRadioButton s then
           (if remoteServers e = [] then
              (False, critical ''Remote server''
                 ''There is no remote server registered for this type of VM in preferences'' s)
            else
              (True, s\<lparr>self_server := itemData (uiRemoteServersComboBox s)
                                         (currentIndex (uiRemoteServersComboBox s))\<rparr>))
         else (True, s\<lparr>self_server := Some (localServer e)\<rparr>))
      else (True, s))"

subsection \<open>\<^verbatim>\<open>IOUDeviceWizard\<close>\<close>

text \<open>\<^verbatim>\<open>IOUDeviceWizard.initializePage\<close>\<close>

definition initializePage :: "env \<Rightarrow> page \<Rightarrow> wizard \<Rightarrow> error + wizard" where
  "initializePage e pg s =
     (let s1 = DeviceWizard_initializePage e pg s;
          s2 = (if pg = uiServerWizardPage then fill_remote_servers e s1 else s1)
      in if pg = uiNameImageWizardPage then
           (let s3 = (if \<not> uiLocalRadioButton s2 then
                        s2\<lparr>message_boxes := message_boxes s2 @
                             [(Warning, ''IOU image'',
                               ''You have chosen to use a remote server, please provide the path to an IOU image located on this server!'')]\<rparr>
                      else s2)
            in loadImagesList ''/iou/vms'' s3)
         else Inr s2)"

text \<open>
  The loop of \<^verbatim>\<open>validateCurrentPage\<close> over the configured devices: \<open>True\<close> when
  a device of that name is met. \<^verbatim>\<open>iou_device["name"]\<close> raises \<^verbatim>\<open>KeyError\<close> on a
  device without a name.
\<close>

fun name_is_used :: "pydict list \<Rightarrow> string \<Rightarrow> error + bool" where
  "name_is_used [] name = Inr False"
| "name_is_used (iou_device # rest) name =
     (case getitem iou_device ''name'' of
        Inl e \<Rightarrow> Inl e
      | Inr n \<Rightarrow> if n = name then Inr True else name_is_used rest name)"

text \<open>\<^verbatim>\<open>IOUDeviceWizard.validateCurrentPage\<close>\<close>

definition server_page_check :: "env \<Rightarrow> wizard \<Rightarrow> bool \<times> wizard" where
  "server_page_check e s =
     (if currentPage s = uiServerWizardPage then
        (if uiRemoteRadioButton s then
           (if remoteServers e = [] then
              (False, critical ''Remote server''
                 ''There is no remote server registered in IOS on UNIX preferences'' s)
            else
              (True, s\<lparr>self_server := itemData (uiRemoteServersComboBox s)
                                         (currentIndex (uiRemoteServersComboBox s))\<rparr>))
         else (True, s\<lparr>self_server := Some (localServer e)\<rparr>))
      else (True, s))"

definition validateCurrentPage :: "env \<Rightarrow> wizard \<Rightarrow> error + bool \<times> wizard" where
  "validateCurrentPage e s =
     (case DeviceWizard_validateCurrentPage e s of
        (False, s1) \<Rightarrow> Inr (False, s1)
      | (True, s1) \<Rightarrow>
          if currentPage s1 = uiNameImageWizardPage then
            (let name = le_text (line_edits s1 uiNameLineEdit) in
             case name_is_used (map snd (self_iou_devices s1)) name of
               Inl e' \<Rightarrow> Inl e'
             | Inr True \<Rightarrow>
                 Inr (False, critical ''Name''
                        (name @ '' is already used, please choose another name'') s1)
             | Inr False \<Rightarrow> Inr (server_page_check e s1))
          else Inr (server_page_check e s1))"

datatype category = Node_routers | Node_switches

record settings =
  settings_name :: string
  settings_path :: string
  settings_image :: string
  settings_initial_config :: string
  settings_ethernet_adapters :: int
  settings_serial_adapters :: int
  settings_default_symbol :: string
  settings_category :: category
  settings_hover_symbol :: string
  settings_server :: string

text \<open>The two template paths that \<^verbatim>\<open>__init__\<close> computes.\<close>

definition base_iou_l2_config_template :: string where
  "base_iou_l2_config_template = ''configs/iou_l2_base_initial-config.txt''"

definition base_iou_l3_config_template :: string where
  "base_iou_l3_config_template = ''configs/iou_l3_base_initial-config.txt''"

text \<open>
  \<^verbatim>\<open>initial_config = ""\<close>, replaced by the base configuration when that is
  neither \<^verbatim>\<open>None\<close> nor empty.
\<close>

definition initial_config_of :: "string option \<Rightarrow> string" where
  "initial_config_of default_base_config =
     (case default_base_config of None \<Rightarrow> [] | Some c \<Rightarrow> if c \<noteq> [] then c else [])"

text \<open>
  The server of \<^verbatim>\<open>getSettings\<close>. \<^verbatim>\<open>next(iter(Servers.instance()))\<close> raises
  \<^verbatim>\<open>StopIteration\<close> when the iteration yields nothing.
\<close>

definition resolve_server :: "env \<Rightarrow> wizard \<Rightarrow> error + string" where
  "resolve_server e s =
     (if uiLocalRadioButton s then Inr ''local''
      else if uiRemoteRadioButton s then
        (if uiLoadBalanceCheckBox s then
           (case servers_iter e of
              [] \<Rightarrow> Inl StopIteration
            | srv # _ \<Rightarrow> Inr (host_port srv))
         else Inr (currentText (uiRemoteServersComboBox s)))
      else Inr ''cloud'')"

text \<open>\<^verbatim>\<open>IOUDeviceWizard.getSettings\<close>\<close>

definition getSettings :: "env \<Rightarrow> wizard \<Rightarrow> error + settings" where
  "getSettings e s =
     (let path = le_text (line_edits s uiIOUImageLineEdit);
          (initial_config, default_symbol, hover_symbol, cat, ethernet_adapters, serial_adapters) =
            (if uiTypeComboBox_currentText s = ''L2 image'' then
               (initial_config_of (get_default_base_config e base_iou_l2_config_template),
                '':/symbols/multilayer_switch.normal.svg'',
                '':/symbols/multilayer_switch.selected.svg'',
                Node_switches, 4, 0)
             else
               (initial_config_of (get_default_base_config e base_iou_l3_config_template),
                '':/symbols/router.normal.svg'',
                '':/symbols/router.selected.svg'',
                Node_routers, 2, 2))
      in case resolve_server e s of
           Inl err \<Rightarrow> Inl err
         | Inr srv \<Rightarrow>
             Inr \<lparr>settings_name = le_text (line_edits s uiNameLineEdit),
                  settings_path = path,
                  settings_image = basename path,
                  settings_initial_config = initial_config,
                  settings_ethernet_adapters = ethernet_adapters,
                  settings_serial_adapters = serial_adapters,
                  settings_default_symbol = default_symbol,
                  settings_category = cat,
                  settings_hover_symbol = hover_symbol,
                  settings_server = srv\<rparr>)"

subsection \<open>Sample states\<close>

text \<open>
  An application with one registered remote server, and an IOU wizard on its name
  page: local server chosen, one image selector registered (combo box, line edit and
  browse button number 0), no image list loaded yet, two devices configured.
\<close>

definition example_env :: env where
  "example_env =
     \<lparr>remoteServers = [(''10.0.0.1:8000'', \<lparr>host = ''10.0.0.1'', port = 8000\<rparr>)],
      localServer = \<lparr>host = ''127.0.0.1'', port = 8000\<rparr>,
      servers_iter = [\<lparr>host = ''10.0.0.1'', port = 8000\<rparr>],
      get_default_base_config = (\<lambda>template. None)\<rparr>"

definition example_wizard :: wizard where
  "example_wizard =
     \<lparr>self_server = Some \<lparr>host = ''127.0.0.1'', port = 8000\<rparr>,
      self_images_combo_boxes = [0],
      self_images_browser_buttons = [0],
      self_image_list_progress_dialog = None,
      self_iou_devices =
        [(''local:R1'', [(''name'', ''R1'')]), (''local:R2'', [(''name'', ''R2'')])],
      combo_boxes =
        (\<lambda>c. \<lparr>items = [], currentIndex = - 1, cb_visible = True, cb_enabled = True\<rparr>),
      line_edits = (\<lambda>l. \<lparr>le_text = [], le_visible = False\<rparr>),
      buttons = (\<lambda>b. False),
      progress_dialogs =
        (\<lambda>d. \<lparr>wasCanceled = False, pd_state = Rejected, deleteOnClose = True, deleted = True\<rparr>),
      next_dialog = 0,
      connections =
        [ExistingImageToggled 0 0 0 0, ImageListIndexChanged 0 0, ImageBrowserClicked 0 0],
      uiLocalRadioButton = True,
      uiRemoteRadioButton = False,
      uiLoadBalanceCheckBox = False,
      uiRemoteServersGroupBox = False,
      uiRemoteServersComboBox =
        \<lparr>items = [], currentIndex = - 1, cb_visible = True, cb_enabled = True\<rparr>,
      uiTypeComboBox = 0,
      logoPixmap = '':/symbols/multilayer_switch.normal.svg'',
      currentPage = uiNameImageWizardPage,
      message_boxes = [],
      requests = []\<rparr>"

text \<open>The wizard before any image selector is registered, every widget visible.\<close>

definition example_fresh :: wizard where
  "example_fresh =
     example_wizard\<lparr>self_images_combo_boxes := [], self_images_browser_buttons := [],
                    connections := [],
                    line_edits := (\<lambda>l. \<lparr>le_text = [], le_visible = True\<rparr>),
                    buttons := (\<lambda>b. True)\<rparr>"

text \<open>The wizard on its server page, remote chosen, the chooser filled from the registry.\<close>

definition example_remote_wizard :: wizard where
  "example_remote_wizard =
     fill_remote_servers example_env
       (example_wizard\<lparr>currentPage := uiServerWizardPage, uiLocalRadioButton := False,
                       uiRemoteRadioButton := True\<rparr>)"

text \<open>The wizard on its name page with a name typed in.\<close>

definition example_named :: "string \<Rightarrow> wizard" where
  "example_named n =
     example_wizard\<lparr>line_edits := (line_edits example_wizard)
                       (uiNameLineEdit := \<lparr>le_text = n, le_visible = True\<rparr>)\<rparr>"

text \<open>The wizard while one image list is being fetched: progress dialog 0 is shown.\<close>

definition example_loading :: wizard where
  "example_loading =
     example_wizard\<lparr>self_image_list_progress_dialog := Some 0,
                    progress_dialogs := (progress_dialogs example_wizard)
                      (0 := \<lparr>wasCanceled = False, pd_state = Shown,
                              deleteOnClose = True, deleted = False\<rparr>),
                    next_dialog := 1,
                    requests := [(\<lparr>host = ''127.0.0.1'', port = 8000\<rparr>, ''/iou/vms'')]\<rparr>"

text \<open>Sequencing of calls that may raise, and what is seen of a widget afterwards.\<close>

definition and_then :: "error + wizard \<Rightarrow> (wizard \<Rightarrow> error + wizard) \<Rightarrow> error + wizard" where
  "and_then r f = (case r of Inl e \<Rightarrow> Inl e | Inr s \<Rightarrow> f s)"

definition button_visible :: "nat \<Rightarrow> error + wizard \<Rightarrow> bool option" where
  "button_visible b r = (case r of Inl e \<Rightarrow> None | Inr s \<Rightarrow> Some (buttons s b))"

definition combo_items :: "nat \<Rightarrow> error + wizard \<Rightarrow> (string \<times> pydict) list option" where
  "combo_items c r = (case r of Inl e \<Rightarrow> None | Inr s \<Rightarrow> Some (items (combo_boxes s c)))"

section \<open>Properties\<close>

subsection \<open>Strings\<close>

text \<open>\<open>str_contains\<close> is the substring relation on character lists.\<close>

lemma str_contains_iff: "str_contains needle t \<longleftrightarrow> (\<exists>ys zs. t = ys @ needle @ zs)"
proof (induction t)
  case Nil
  then show ?case by auto
next
  case (Cons c cs)
  show ?case
  proof
    assume "str_contains needle (c # cs)"
    then consider "take (length needle) (c # cs) = needle" | "str_contains needle cs" by auto
    then show "\<exists>ys zs. c # cs = ys @ needle @ zs"
    proof cases
      case 1
      then have "c # cs = [] @ needle @ drop (length needle) (c # cs)"
        by (metis append_Nil append_take_drop_id)
      then show ?thesis by blast
    next
      case 2
      then obtain ys zs where "cs = ys @ needle @ zs" using Cons.IH by blast
      then have "c # cs = (c # ys) @ needle @ zs" by simp
      then show ?thesis by blast
    qed
  next
    assume "\<exists>ys zs. c # cs = ys @ needle @ zs"
    then obtain ys zs where e: "c # cs = ys @ needle @ zs" by blast
    show "str_contains needle (c # cs)"
    proof (cases ys)
      case Nil
      then have "take (length needle) (c # cs) = needle" using e by simp
      then show ?thesis by simp
    next
      case (Cons y ys')
      then have "cs = ys' @ needle @ zs" using e by simp
      then have "str_contains needle cs" using Cons.IH by blast
      then show ?thesis by simp
    qed
  qed
qed

subsection \<open>The index-change slot\<close>

lemma imageListIndexChangedSlot_None:
  "itemData (combo_boxes s combo_box) index = None \<Longrightarrow>
   imageListIndexChangedSlot index combo_box line_edit s = Inl TypeError"
  by (simp add: imageListIndexChangedSlot_def subscript_def truthy_def)

text \<open>
  C10. The claim is that \<^verbatim>\<open>_imageListIndexChangedSlot\<close> completes without error for
  every index, also one without item data, and sets the text field to the filename.
  The code does not: at index \<open>-1\<close>, which names no entry, \<^verbatim>\<open>itemData\<close> is
  \<^verbatim>\<open>None\<close>, the falsy branch subscripts it, and the slot ends with \<^verbatim>\<open>TypeError\<close>
  without touching the text field.
\<close>

theorem imageListIndexChangedSlot_cleared_raises:
  "imageListIndexChangedSlot (- 1) 0 uiIOUImageLineEdit example_wizard = Inl TypeError"
  by (rule imageListIndexChangedSlot_None) (simp add: itemData_def)

subsection \<open>The type heuristic on the image path\<close>

text \<open>
  C3, as stated: a text that contains \<^verbatim>\<open>l3\<close> selects index 1. It fails on a path
  that contains both tokens: the \<^verbatim>\<open>l2\<close> test comes first and wins.
\<close>

theorem imageLineEdit_l3_counterexample:
  "str_contains ''l3'' ''/images/l2/i86bi-linux-l3.bin'' \<and>
   uiTypeComboBox (imageLineEditTextChangedSlot ''/images/l2/i86bi-linux-l3.bin'' example_wizard) \<noteq> 1"
  by (simp add: imageLineEditTextChangedSlot_def uiTypeComboBox_setCurrentIndex_def
        example_wizard_def)

text \<open>
  C3, amended. The test is the case-sensitive substring relation. A text that contains
  \<^verbatim>\<open>l2\<close> selects index 0 (L2); a text that contains \<^verbatim>\<open>l3\<close> and not \<^verbatim>\<open>l2\<close>
  selects index 1 (L3); any other text leaves the wizard as it is.
\<close>

theorem imageLineEditTextChangedSlot_heuristic:
  "(str_contains needle txt \<longleftrightarrow> (\<exists>ys zs. txt = ys @ needle @ zs)) \<and>
   (str_contains ''l2'' txt \<longrightarrow> uiTypeComboBox (imageLineEditTextChangedSlot txt s) = 0) \<and>
   (\<not> str_contains ''l2'' txt \<and> str_contains ''l3'' txt \<longrightarrow>
      uiTypeComboBox (imageLineEditTextChangedSlot txt s) = 1) \<and>
   (\<not> str_contains ''l2'' txt \<and> \<not> str_contains ''l3'' txt \<longrightarrow>
      imageLineEditTextChangedSlot txt s = s)"
  using str_contains_iff [of needle "txt"]
  by (simp add: imageLineEditTextChangedSlot_def uiTypeComboBox_setCurrentIndex_def
        typeChangedSlot_def Let_def)

theorem imageLineEditTextChangedSlot_heuristic_witness:
  "str_contains ''l2'' ''vios-l2.bin'' \<and>
   uiTypeComboBox (imageLineEditTextChangedSlot ''vios-l2.bin'' (example_wizard\<lparr>uiTypeComboBox := 1\<rparr>)) = 0 \<and>
   \<not> str_contains ''l2'' ''i86bi-linux-l3.bin'' \<and> str_contains ''l3'' ''i86bi-linux-l3.bin'' \<and>
   uiTypeComboBox (imageLineEditTextChangedSlot ''i86bi-linux-l3.bin'' example_wizard) = 1 \<and>
   \<not> str_contains ''l2'' ''IOU-L2.BIN'' \<and> \<not> str_contains ''l3'' ''IOU-L2.BIN'' \<and>
   imageLineEditTextChangedSlot ''IOU-L2.BIN'' example_wizard = example_wizard"
  using imageLineEditTextChangedSlot_heuristic [of "''l2''" "''vios-l2.bin''" "example_wizard\<lparr>uiTypeComboBox := 1\<rparr>"]
        imageLineEditTextChangedSlot_heuristic [of "''l3''" "''i86bi-linux-l3.bin''" example_wizard]
        imageLineEditTextChangedSlot_heuristic [of "''l2''" "''IOU-L2.BIN''" example_wizard]
  by simp

subsection \<open>The settings\<close>

lemma resolve_server_cases:
  "resolve_server e s = Inl err \<Longrightarrow>
   \<not> uiLocalRadioButton s \<and> uiRemoteRadioButton s \<and> uiLoadBalanceCheckBox s \<and> servers_iter e = []"
  by (auto simp: resolve_server_def split: if_splits list.splits)

text \<open>
  C2. The server of the settings. The three radio buttons are one exclusive group, and
  the source asks them in the order local, remote, cloud. With local checked the
  server is \<^verbatim>\<open>local\<close>. With remote checked and load balance on, it is the first
  server that iterating the registry yields, as \<^verbatim>\<open>host:port\<close>. With remote checked
  and load balance off, it is the current text of the remote-server combo box. With
  neither local nor remote checked it is \<^verbatim>\<open>cloud\<close>. In each case \<^verbatim>\<open>getSettings\<close>
  returns a settings record.
\<close>

theorem getSettings_server:
  "(uiLocalRadioButton s \<longrightarrow>
      (\<exists>st. getSettings e s = Inr st \<and> settings_server st = ''local'')) \<and>
   (\<not> uiLocalRadioButton s \<and> uiRemoteRadioButton s \<and> uiLoadBalanceCheckBox s \<and>
    servers_iter e = srv # rest \<longrightarrow>
      (\<exists>st. getSettings e s = Inr st \<and>
            settings_server st = host srv @ '':'' @ str_int (port srv))) \<and>
   (\<not> uiLocalRadioButton s \<and> uiRemoteRadioButton s \<and> \<not> uiLoadBalanceCheckBox s \<longrightarrow>
      (\<exists>st. getSettings e s = Inr st \<and>
            settings_server st = currentText (uiRemoteServersComboBox s))) \<and>
   (\<not> uiLocalRadioButton s \<and> \<not> uiRemoteRadioButton s \<longrightarrow>
      (\<exists>st. getSettings e s = Inr st \<and> settings_server st = ''cloud''))"
  by (simp add: getSettings_def resolve_server_def host_port_def Let_def split: prod.splits)

text \<open>
  The four cases of C2 on the sample states: local; remote with load balance; remote
  with the chooser showing its one entry; no button of the two checked.
\<close>

theorem getSettings_server_witness:
  "uiLocalRadioButton example_wizard \<and>
   (\<exists>st. getSettings example_env example_wizard = Inr st \<and> settings_server st = ''local'') \<and>
   (\<exists>st. getSettings example_env (example_remote_wizard\<lparr>uiLoadBalanceCheckBox := True\<rparr>) = Inr st \<and>
         settings_server st = ''10.0.0.1:8000'') \<and>
   currentText (uiRemoteServersComboBox example_remote_wizard) = ''10.0.0.1:8000'' \<and>
   (\<exists>st. getSettings example_env example_remote_wizard = Inr st \<and>
         settings_server st = ''10.0.0.1:8000'') \<and>
   (\<exists>st. getSettings example_env (example_wizard\<lparr>uiLocalRadioButton := False\<rparr>) = Inr st \<and>
         settings_server st = ''cloud'')"
  using getSettings_server [of example_wizard example_env "\<lparr>host = ''10.0.0.1'', port = 8000\<rparr>" "[]"]
        getSettings_server [of "example_remote_wizard\<lparr>uiLoadBalanceCheckBox := True\<rparr>" example_env
          "\<lparr>host = ''10.0.0.1'', port = 8000\<rparr>" "[]"]
        getSettings_server [of example_remote_wizard example_env
          "\<lparr>host = ''10.0.0.1'', port = 8000\<rparr>" "[]"]
        getSettings_server [of "example_wizard\<lparr>uiLocalRadioButton := False\<rparr>" example_env
          "\<lparr>host = ''10.0.0.1'', port = 8000\<rparr>" "[]"]
  by (simp add: example_remote_wizard_def fill_remote_servers_def example_wizard_def
        example_env_def str_int_def str_nat.simps digit_char_def currentText_def addItem_def
        clear_def count_def host_port_def)

text \<open>
  C5. Unless the server cannot be resolved (remote with load balance over an empty
  iteration), \<^verbatim>\<open>getSettings\<close> returns a record whose adapter counts, category and
  symbols are those of the chosen type and depend on nothing else: for the type text
  \<^verbatim>\<open>L2 image\<close> 4 Ethernet and 0 serial adapters, category switches, the multilayer
  switch symbols; for any other type text 2 and 2, category routers, the router
  symbols.
\<close>

theorem getSettings_type_tuple:
  assumes "uiLocalRadioButton s \<or> \<not> uiRemoteRadioButton s \<or> \<not> uiLoadBalanceCheckBox s \<or>
           servers_iter e \<noteq> []"
  shows "\<exists>st. getSettings e s = Inr st \<and>
           (uiTypeComboBox_currentText s = ''L2 image'' \<longrightarrow>
              settings_ethernet_adapters st = 4 \<and> settings_serial_adapters st = 0 \<and>
              settings_category st = Node_switches \<and>
              settings_default_symbol st = '':/symbols/multilayer_switch.normal.svg'' \<and>
              settings_hover_symbol st = '':/symbols/multilayer_switch.selected.svg'') \<and>
           (uiTypeComboBox_currentText s \<noteq> ''L2 image'' \<longrightarrow>
              settings_ethernet_adapters st = 2 \<and> settings_serial_adapters st = 2 \<and>
              settings_category st = Node_routers \<and>
              settings_default_symbol st = '':/symbols/router.normal.svg'' \<and>
              settings_hover_symbol st = '':/symbols/router.selected.svg'')"
proof (cases "resolve_server e s")
  case (Inl err)
  with assms show ?thesis using resolve_server_cases by blast
next
  case (Inr srv)
  then show ?thesis by (simp add: getSettings_def Let_def)
qed

text \<open>C5 on the sample wizard, with the type set to L2 and to L3.\<close>

theorem getSettings_type_tuple_witness:
  "uiLocalRadioButton example_wizard \<and>
   uiTypeComboBox_currentText example_wizard = ''L2 image'' \<and>
   (\<exists>st. getSettings example_env example_wizard = Inr st \<and>
         settings_ethernet_adapters st = 4 \<and> settings_serial_adapters st = 0 \<and>
         settings_category st = Node_switches \<and>
         settings_default_symbol st = '':/symbols/multilayer_switch.normal.svg'' \<and>
         settings_hover_symbol st = '':/symbols/multilayer_switch.selected.svg'') \<and>
   uiTypeComboBox_currentText (example_wizard\<lparr>uiTypeComboBox := 1\<rparr>) = ''L3 image'' \<and>
   (\<exists>st. getSettings example_env (example_wizard\<lparr>uiTypeComboBox := 1\<rparr>) = Inr st \<and>
         settings_ethernet_adapters st = 2 \<and> settings_serial_adapters st = 2 \<and>
         settings_category st = Node_routers \<and>
         settings_default_symbol st = '':/symbols/router.normal.svg'' \<and>
         settings_hover_symbol st = '':/symbols/router.selected.svg'')"
  using getSettings_type_tuple [of example_wizard example_env]
        getSettings_type_tuple [of "example_wizard\<lparr>uiTypeComboBox := 1\<rparr>" example_env]
  by (simp add: example_wizard_def uiTypeComboBox_currentText_def uiTypeComboBox_items_def)

text \<open>
  The end-to-end example of the specification: local server, image \<^verbatim>\<open>vios-l2.bin\<close>,
  name \<^verbatim>\<open>R1\<close>.
\<close>

lemma getSettings_end_to_end:
  "getSettings example_env
     (example_wizard\<lparr>line_edits := (line_edits example_wizard)
        (uiIOUImageLineEdit := \<lparr>le_text = ''vios-l2.bin'', le_visible = False\<rparr>,
         uiNameLineEdit := \<lparr>le_text = ''R1'', le_visible = True\<rparr>)\<rparr>) =
   Inr \<lparr>settings_name = ''R1'', settings_path = ''vios-l2.bin'', settings_image = ''vios-l2.bin'',
        settings_initial_config = [], settings_ethernet_adapters = 4,
        settings_serial_adapters = 0,
        settings_default_symbol = '':/symbols/multilayer_switch.normal.svg'',
        settings_category = Node_switches,
        settings_hover_symbol = '':/symbols/multilayer_switch.selected.svg'',
        settings_server = ''local''\<rparr>"
  by (simp add: getSettings_def resolve_server_def example_wizard_def example_env_def
        uiTypeComboBox_currentText_def uiTypeComboBox_items_def basename_def
        uiIOUImageLineEdit_def uiNameLineEdit_def initial_config_of_def Let_def)

subsection \<open>Page validation\<close>

text \<open>
  C4. On the server page, for the base wizard and for the IOU wizard alike: with remote
  checked and no remote server registered, validation returns \<open>False\<close>, the error
  dialog is the one change, and the stored server is as before; with remote checked
  and a server registered, it returns \<open>True\<close> and stores the data of the chooser's
  current entry; with remote not checked (local is the other choice), it returns
  \<open>True\<close> and stores the local server.
\<close>

theorem validateCurrentPage_server_page:
  assumes "currentPage s = uiServerWizardPage"
  shows "(uiRemoteRadioButton s \<and> remoteServers e = [] \<longrightarrow>
            (\<exists>s'. DeviceWizard_validateCurrentPage e s = (False, s') \<and>
                  validateCurrentPage e s = Inr (False, s') \<and>
                  self_server s' = self_server s \<and>
                  s' = s\<lparr>message_boxes := message_boxes s @
                    [(Critical, ''Remote server'',
                      ''There is no remote server registered for this type of VM in preferences'')]\<rparr>)) \<and>
         (uiRemoteRadioButton s \<and> remoteServers e \<noteq> [] \<longrightarrow>
            (\<exists>s'. DeviceWizard_validateCurrentPage e s = (True, s') \<and>
                  validateCurrentPage e s = Inr (True, s') \<and>
                  self_server s' = itemData (uiRemoteServersComboBox s)
                                     (currentIndex (uiRemoteServersComboBox s)) \<and>
                  message_boxes s' = message_boxes s)) \<and>
         (\<not> uiRemoteRadioButton s \<longrightarrow>
            (\<exists>s'. DeviceWizard_validateCurrentPage e s = (True, s') \<and>
                  validateCurrentPage e s = Inr (True, s') \<and>
                  self_server s' = Some (localServer e) \<and>
                  message_boxes s' = message_boxes s))"
  using assms
  by (simp add: DeviceWizard_validateCurrentPage_def validateCurrentPage_def
        server_page_check_def critical_def)

text \<open>
  C4 on the sample states: remote chosen with an empty registry, remote chosen with
  the one registered server, and local chosen.
\<close>

theorem validateCurrentPage_server_page_witness:
  "currentPage example_remote_wizard = uiServerWizardPage \<and>
   uiRemoteRadioButton example_remote_wizard \<and>
   remoteServers (example_env\<lparr>remoteServers := []\<rparr>) = [] \<and>
   (\<exists>s'. DeviceWizard_validateCurrentPage (example_env\<lparr>remoteServers := []\<rparr>) example_remote_wizard = (False, s') \<and>
         validateCurrentPage (example_env\<lparr>remoteServers := []\<rparr>) example_remote_wizard = Inr (False, s') \<and>
         self_server s' = Some \<lparr>host = ''127.0.0.1'', port = 8000\<rparr> \<and>
         message_boxes s' =
           [(Critical, ''Remote server'',
             ''There is no remote server registered for this type of VM in preferences'')]) \<and>
   remoteServers example_env \<noteq> [] \<and>
   (\<exists>s'. DeviceWizard_validateCurrentPage example_env example_remote_wizard = (True, s') \<and>
         validateCurrentPage example_env example_remote_wizard = Inr (True, s') \<and>
         self_server s' = Some \<lparr>host = ''10.0.0.1'', port = 8000\<rparr> \<and>
         message_boxes s' = []) \<and>
   \<not> uiRemoteRadioButton (example_wizard\<lparr>currentPage := uiServerWizardPage\<rparr>) \<and>
   (\<exists>s'. DeviceWizard_validateCurrentPage example_env (example_wizard\<lparr>currentPage := uiServerWizardPage\<rparr>) = (True, s') \<and>
         validateCurrentPage example_env (example_wizard\<lparr>currentPage := uiServerWizardPage\<rparr>) = Inr (True, s') \<and>
         self_server s' = Some \<lparr>host = ''127.0.0.1'', port = 8000\<rparr> \<and>
         message_boxes s' = [])"
  using validateCurrentPage_server_page [of example_remote_wizard "example_env\<lparr>remoteServers := []\<rparr>"]
        validateCurrentPage_server_page [of example_remote_wizard example_env]
        validateCurrentPage_server_page [of "example_wizard\<lparr>currentPage := uiServerWizardPage\<rparr>" example_env]
  by (simp add: example_remote_wizard_def example_wizard_def example_env_def fill_remote_servers_def
        itemData_def addItem_def clear_def count_def host_port_def)

lemma name_is_used_eq:
  "\<forall>d\<in>set ds. map_of d ''name'' \<noteq> None \<Longrightarrow>
   name_is_used ds name = Inr (\<exists>d\<in>set ds. map_of d ''name'' = Some name)"
  by (induction ds) (auto simp: getitem_def)

text \<open>
  C8. On the name page, every configured device having a name: if the name of some
  device equals the entered name, character for character, validation shows the error
  dialog and returns \<open>False\<close>; if none does, it returns \<open>True\<close> and changes nothing.
\<close>

theorem validateCurrentPage_name_page:
  assumes "currentPage s = uiNameImageWizardPage"
    and "\<forall>d\<in>set (map snd (self_iou_devices s)). map_of d ''name'' \<noteq> None"
  shows "((\<exists>d\<in>set (map snd (self_iou_devices s)).
             map_of d ''name'' = Some (le_text (line_edits s uiNameLineEdit))) \<longrightarrow>
          (\<exists>s'. validateCurrentPage e s = Inr (False, s') \<and>
                message_boxes s' = message_boxes s @
                  [(Critical, ''Name'',
                    le_text (line_edits s uiNameLineEdit) @
                      '' is already used, please choose another name'')])) \<and>
         (\<not> (\<exists>d\<in>set (map snd (self_iou_devices s)).
               map_of d ''name'' = Some (le_text (line_edits s uiNameLineEdit))) \<longrightarrow>
          validateCurrentPage e s = Inr (True, s))"
  using assms name_is_used_eq [OF assms(2), of "le_text (line_edits s uiNameLineEdit)"]
  by (simp add: validateCurrentPage_def DeviceWizard_validateCurrentPage_def
        server_page_check_def critical_def Let_def)

text \<open>
  C8 with the devices \<^verbatim>\<open>R1\<close> and \<^verbatim>\<open>R2\<close> configured: the name \<^verbatim>\<open>R1\<close> is refused,
  \<^verbatim>\<open>R3\<close> and \<^verbatim>\<open>r1\<close> are accepted.
\<close>

theorem validateCurrentPage_name_page_witness:
  "currentPage (example_named ''R1'') = uiNameImageWizardPage \<and>
   map snd (self_iou_devices (example_named ''R1'')) = [[(''name'', ''R1'')], [(''name'', ''R2'')]] \<and>
   (\<exists>s'. validateCurrentPage example_env (example_named ''R1'') = Inr (False, s') \<and>
         message_boxes s' =
           [(Critical, ''Name'', ''R1 is already used, please choose another name'')]) \<and>
   validateCurrentPage example_env (example_named ''R3'') = Inr (True, example_named ''R3'') \<and>
   validateCurrentPage example_env (example_named ''r1'') = Inr (True, example_named ''r1'')"
  using validateCurrentPage_name_page [of "example_named ''R1''" example_env]
        validateCurrentPage_name_page [of "example_named ''R3''" example_env]
        validateCurrentPage_name_page [of "example_named ''r1''" example_env]
  by (simp add: example_named_def example_wizard_def)

subsection \<open>The completion of an image-list request\<close>

lemmas slot_defs =
  typeChangedSlot_def uiTypeComboBox_setCurrentIndex_def imageLineEditTextChangedSlot_def
  lineEdit_setText_def imageListIndexChangedSlot_def comboBox_clear_def comboBox_addItem_def
  set_line_edit_def set_combo_box_def set_button_def setText_def clear_def addItem_def
  itemData_def count_def truthy_def subscript_def getitem_def uiIOUImageLineEdit_def
  uiTypeComboBox_currentText_def uiTypeComboBox_items_def

lemmas dialog_defs =
  loadImagesList_def getImagesFromServerCallback_def dialog_reject_def dialog_accept_def
  dialog_wasCanceled_def done_dialog_def cancel_def closeWindow_def add_result_items_def
  result_message_def critical_def and_then_def combo_items_def

text \<open>
  What the callback does when the wizard holds a dialog that still exists: a canceled
  dialog makes it return with nothing changed but the attribute; otherwise an error
  payload with a message gives one critical message box and leaves the widgets alone.
\<close>

lemma callback_held_dialog:
  assumes "self_image_list_progress_dialog s = Some d"
    and "\<not> deleted (progress_dialogs s d)"
  shows "(wasCanceled (progress_dialogs s d) \<longrightarrow>
            getImagesFromServerCallback result error_flag s =
              Inr (s\<lparr>self_image_list_progress_dialog := None\<rparr>)) \<and>
         (\<not> wasCanceled (progress_dialogs s d) \<and> result = Payload p \<and>
          map_of p ''message'' = Some m \<longrightarrow>
            (\<exists>s'. getImagesFromServerCallback result True s = Inr s' \<and>
                  message_boxes s' = message_boxes s @
                    [(Critical, ''Images'', ''Error while getting the VMs: '' @ m)] \<and>
                  combo_boxes s' = combo_boxes s \<and> line_edits s' = line_edits s \<and>
                  buttons s' = buttons s))"
  using assms
  by (simp add: getImagesFromServerCallback_def dialog_wasCanceled_def dialog_accept_def
        result_message_def getitem_def critical_def Let_def)

text \<open>A completion that finds no dialog stored raises, whatever it carries.\<close>

lemma callback_no_dialog:
  "self_image_list_progress_dialog s = None \<Longrightarrow>
   getImagesFromServerCallback result error_flag s = Inl AttributeError"
  by (simp add: getImagesFromServerCallback_def)

text \<open>
  Clearing a combo box that has a current entry and a slot connected: the slot runs
  at index \<open>-1\<close> on the emptied box and raises.
\<close>

lemma emit_cleared_raises:
  "ImageListIndexChanged c l \<in> set conns \<Longrightarrow> items (combo_boxes s c) = [] \<Longrightarrow>
   emit_currentIndexChanged conns c (- 1) s = Inl TypeError"
proof (induction conns)
  case Nil
  then show ?case by simp
next
  case (Cons x rest)
  have slot: "imageListIndexChangedSlot (- 1) c l' s = Inl TypeError" for l'
    by (simp add: imageListIndexChangedSlot_def itemData_def subscript_def truthy_def)
  show ?case using Cons slot by (cases x) auto
qed

lemma comboBox_clear_filled_raises:
  assumes "ImageListIndexChanged c l \<in> set (connections s)"
    and "currentIndex (combo_boxes s c) \<noteq> - 1"
  shows "comboBox_clear c s = Inl TypeError"
proof -
  have "emit_currentIndexChanged (connections s) c (- 1)
          (set_combo_box c (clear (combo_boxes s c)) s) = Inl TypeError"
    using assms(1) by (intro emit_cleared_raises) (simp_all add: set_combo_box_def clear_def)
  with assms(2) show ?thesis
    by (simp add: comboBox_clear_def Let_def clear_def set_combo_box_def)
qed

text \<open>
  C6. The claim is that every delivered completion is discarded silently when the
  user canceled the progress indicator, and otherwise, with the error flag set, gives
  an error dialog with the server's message. The code does so only while it holds
  the dialog of the request that completes. Three runs where it does not:
  the second of two completions in flight carries an error and finds no dialog, so
  the callback raises \<^verbatim>\<open>AttributeError\<close> and shows no message box;
  the user cancels dialog 0, the page is entered again, and the answer of the
  canceled request is applied to combo box 0;
  the user cancels by closing the window of dialog 0, which deletes the dialog, and
  the completion raises \<^verbatim>\<open>RuntimeError\<close> instead of being discarded.
\<close>

theorem callback_without_live_dialog:
  "and_then
     (and_then (and_then (loadImagesList ''/iou/vms'' example_wizard) (loadImagesList ''/iou/vms''))
        (getImagesFromServerCallback (Records [[(''filename'', ''first.bin'')]]) False))
     (getImagesFromServerCallback (Payload [(''message'', ''Not found'')]) True) =
   Inl AttributeError \<and>
   wasCanceled (progress_dialogs (cancel 0 example_loading) 0) \<and>
   combo_items 0
     (and_then (loadImagesList ''/iou/vms'' (cancel 0 example_loading))
        (getImagesFromServerCallback (Records [[(''filename'', ''first.bin'')]]) False)) =
   Some [(''first.bin'', [(''filename'', ''first.bin'')])] \<and>
   wasCanceled (progress_dialogs (closeWindow 0 example_loading) 0) \<and>
   getImagesFromServerCallback (Records [[(''filename'', ''first.bin'')]]) False
     (closeWindow 0 example_loading) = Inl RuntimeError"
  by (simp add: slot_defs dialog_defs example_wizard_def example_loading_def Let_def)


subsection \<open>The browse buttons\<close>

lemma fold_set_button:
  "buttons (fold (\<lambda>button. set_button button v) bs s) b = (if b \<in> set bs then v else buttons s b)"
  by (induction bs arbitrary: s) (auto simp: set_button_def)

lemma fold_set_button_registered:
  "self_images_browser_buttons (fold (\<lambda>button. set_button button v) bs s) =
   self_images_browser_buttons s"
  by (induction bs arbitrary: s) (auto simp: set_button_def)

text \<open>Setting the text of a line edit, with the slots it runs, touches no button.\<close>

lemma lineEdit_setText_buttons:
  "buttons (lineEdit_setText l t s) = buttons s \<and>
   self_images_browser_buttons (lineEdit_setText l t s) = self_images_browser_buttons s"
  by (simp add: lineEdit_setText_def imageLineEditTextChangedSlot_def
        uiTypeComboBox_setCurrentIndex_def typeChangedSlot_def set_line_edit_def Let_def)

lemma existingImageToggledSlot_True_button:
  "existingImageToggledSlot True c l b s = Inr s' \<Longrightarrow>
   \<not> buttons s' b \<and> self_images_browser_buttons s' = self_images_browser_buttons s"
  by (auto simp: existingImageToggledSlot_def Let_def lineEdit_setText_buttons set_button_def
        set_line_edit_def set_combo_box_def split: if_splits sum.splits)

lemma existingImageToggledSlot_True_empty:
  "count (combo_boxes s c) = 0 \<Longrightarrow> \<exists>s'. existingImageToggledSlot True c l b s = Inr s'"
  by (simp add: existingImageToggledSlot_def Let_def set_button_def set_line_edit_def
        set_combo_box_def count_def)

text \<open>
  C9, as stated: right after \<^verbatim>\<open>addImageSelector\<close> the browse button is visible when
  remote is not selected. On the fresh wizard remote is not selected and the button
  is visible before the call; after the call it is hidden, because the call ends by
  putting the group in existing-image mode.
\<close>

theorem addImageSelector_visible_counterexample:
  "\<not> uiRemoteRadioButton example_fresh \<and> buttons example_fresh 0 \<and>
   button_visible 0 (addImageSelector 0 0 uiIOUImageLineEdit 0 0 example_fresh) = Some False"
  by (simp add: example_fresh_def example_wizard_def addImageSelector_def existingImageToggledSlot_def
        button_visible_def Let_def set_button_def set_line_edit_def set_combo_box_def count_def
        set_add_def)

text \<open>
  C9, amended. A toggle of the remote radio button hides the browse button of every
  registered group when the button becomes checked and shows every one when it
  becomes unchecked, and keeps the set of registered buttons. A group that
  \<^verbatim>\<open>addImageSelector\<close> has registered has its browse button registered and hidden,
  whatever the server mode, and the registration succeeds on an empty combo box.
  The existing-image toggle of a group hides its browse button when checked and
  shows it when unchecked.
\<close>

theorem browse_button_visibility:
  "(\<forall>b\<in>set (self_images_browser_buttons s).
      buttons (remoteServerToggledSlot checked s) b = (\<not> checked)) \<and>
   self_images_browser_buttons (remoteServerToggledSlot checked s) =
     self_images_browser_buttons s \<and>
   (\<forall>s1. addImageSelector r c l b i s = Inr s1 \<longrightarrow>
      b \<in> set (self_images_browser_buttons s1) \<and> \<not> buttons s1 b) \<and>
   (count (combo_boxes s c) = 0 \<longrightarrow> (\<exists>s1. addImageSelector r c l b i s = Inr s1)) \<and>
   (\<forall>s2. existingImageToggledSlot True c l b s = Inr s2 \<longrightarrow> \<not> buttons s2 b) \<and>
   (\<exists>s3. existingImageToggledSlot False c l b s = Inr s3 \<and> buttons s3 b)"
proof -
  have toggle: "\<forall>b\<in>set (self_images_browser_buttons s).
      buttons (remoteServerToggledSlot checked s) b = (\<not> checked)"
    by (simp add: remoteServerToggledSlot_def fold_set_button)
  have reg: "self_images_browser_buttons (remoteServerToggledSlot checked s) =
     self_images_browser_buttons s"
    by (simp add: remoteServerToggledSlot_def fold_set_button_registered)
  have add: "\<forall>s1. addImageSelector r c l b i s = Inr s1 \<longrightarrow>
      b \<in> set (self_images_browser_buttons s1) \<and> \<not> buttons s1 b"
    unfolding addImageSelector_def Let_def
    by (auto dest!: existingImageToggledSlot_True_button simp: set_add_def set_button_def)
  have tot: "count (combo_boxes s c) = 0 \<longrightarrow> (\<exists>s1. addImageSelector r c l b i s = Inr s1)"
    unfolding addImageSelector_def Let_def
    by (auto intro!: existingImageToggledSlot_True_empty simp: set_button_def)
  have on: "\<forall>s2. existingImageToggledSlot True c l b s = Inr s2 \<longrightarrow> \<not> buttons s2 b"
    using existingImageToggledSlot_True_button by blast
  have off: "\<exists>s3. existingImageToggledSlot False c l b s = Inr s3 \<and> buttons s3 b"
    by (simp add: existingImageToggledSlot_def Let_def set_button_def set_line_edit_def
        set_combo_box_def)
  from toggle reg add tot on off show ?thesis by blast
qed

text \<open>
  C9, amended, on the sample states: the two directions of the remote toggle with
  button 0 registered, a registration on the fresh wizard, and the existing-image
  toggle switched off.
\<close>

theorem browse_button_visibility_witness:
  "self_images_browser_buttons example_wizard = [0] \<and>
   \<not> buttons (remoteServerToggledSlot True example_wizard) 0 \<and>
   buttons (remoteServerToggledSlot False example_wizard) 0 \<and>
   count (combo_boxes example_fresh 0) = 0 \<and>
   (\<exists>s1. addImageSelector 0 0 uiIOUImageLineEdit 0 0 example_fresh = Inr s1 \<and>
         0 \<in> set (self_images_browser_buttons s1) \<and> \<not> buttons s1 0) \<and>
   (\<exists>s3. existingImageToggledSlot False 0 uiIOUImageLineEdit 0 example_wizard = Inr s3 \<and>
         buttons s3 0)"
  using browse_button_visibility [of example_wizard True 0 0 uiIOUImageLineEdit 0 0]
        browse_button_visibility [of example_wizard False 0 0 uiIOUImageLineEdit 0 0]
        browse_button_visibility [of example_fresh True 0 0 uiIOUImageLineEdit 0 0]
  by (auto simp add: example_wizard_def example_fresh_def count_def)

subsection \<open>Two image-list requests in flight\<close>

text \<open>
  Entering the name page is what starts a request, so entering it twice (forward,
  back, forward) before the server answers gives two calls of \<^verbatim>\<open>loadImagesList\<close>.
\<close>

lemma initializePage_loads:
  "uiLocalRadioButton s \<Longrightarrow>
   initializePage e uiNameImageWizardPage s = loadImagesList ''/iou/vms'' s"
  by (simp add: initializePage_def DeviceWizard_initializePage_def Let_def)

lemma example_loading_eq: "loadImagesList ''/iou/vms'' example_wizard = Inr example_loading"
  by (simp add: loadImagesList_def example_wizard_def example_loading_def Let_def)

text \<open>
  C1. The claim is that after two calls of \<^verbatim>\<open>loadImagesList\<close> only the second
  request's completion has an effect and the first request's completion, delivered
  late, changes no widget. The code rejects the pending dialog to supersede the first
  request, but the callback takes only the answer and uses whatever dialog the wizard
  holds. On the sample wizard, whose combo box 0 is empty, the first request's answer
  arrives after the second call, is handled with the second call's dialog and fills
  combo box 0; the second request's answer then finds no dialog, and the callback
  raises \<^verbatim>\<open>AttributeError\<close> without showing it.
\<close>

theorem loadImagesList_twice_stale_completion:
  "combo_items 0 (Inr example_wizard) = Some [] \<and>
   combo_items 0
     (and_then (and_then (loadImagesList ''/iou/vms'' example_wizard) (loadImagesList ''/iou/vms''))
        (getImagesFromServerCallback (Records [[(''filename'', ''first.bin'')]]) False)) =
   Some [(''first.bin'', [(''filename'', ''first.bin'')])] \<and>
   and_then
     (and_then (and_then (loadImagesList ''/iou/vms'' example_wizard) (loadImagesList ''/iou/vms''))
        (getImagesFromServerCallback (Records [[(''filename'', ''first.bin'')]]) False))
     (getImagesFromServerCallback (Records [[(''filename'', ''second.bin'')]]) False) =
   Inl AttributeError"
  by (simp add: slot_defs dialog_defs example_wizard_def Let_def)

end
